theory Spec2Isabelle
  imports Main "HOL-Library.Sublist"
begin

section \<open>The hook \<open>useSpeechToText\<close> as an event-driven state machine\<close>

text \<open>
  The source is one React hook, \<open>src/Hooks/useSpeechToText.tsx\<close>. Its state is three
  \<open>useState\<close> cells (\<open>isRecording\<close>, \<open>results\<close>, \<open>error\<close>), three refs
  (\<open>audioContextRef\<close>, \<open>timeoutId\<close>, \<open>mediaStream\<close>) and the module-level
  \<open>recognition\<close> object. Every function of the hook is embedded as a function from the
  state to the state. What the hook asks of its collaborators (the browser's recognizer,
  the recording helpers, Hark, timers, \<open>FileReader\<close>, \<open>fetch\<close>, the audio tracks) is
  appended, in order, to the field \<open>calls\<close>; what the collaborators answer arrives as an
  \<open>event\<close> that runs the callback the hook registered for it. An \<open>async\<close> function is
  cut at each \<open>await\<close>: the part before it is one function, the part after it is the
  function run by the event that resolves the promise.

  The options of the hook are read from the closure of the render; they are taken as one
  fixed record for the life of the hook.
\<close>

subsection \<open>Values\<close>

datatype js_error = TypeError

text \<open>
  A media stream is known by its identity: the stream the microphone capability hands
  out, or \<open>stream.clone()\<close> of a stream. \<open>Track_stop m\<close> below records
  \<open>m.getAudioTracks()[0].stop()\<close>; a microphone stream and its clones carry an audio
  track.
\<close>

datatype media_stream = Microphone nat | Clone media_stream

text \<open>The sample rate of an audio context, in Hz.\<close>

record audio_context =
  sampleRate :: int

type_synonym blob = nat

text \<open>The options \<open>UseSpeechToTextTypes\<close>; an optional field that is absent is \<open>None\<close>.\<close>

record UseSpeechToTextTypes =
  continuous :: "bool option"
  crossBrowser :: "bool option"
  googleApiKey :: "string option"
  onStartSpeaking :: bool
  onStoppedSpeaking :: bool
  timeout :: "nat option"

text \<open>JavaScript truthiness of an optional boolean and of an optional number.\<close>

definition truthy :: "bool option \<Rightarrow> bool" where
  "truthy b = (b = Some True)"

definition truthy_number :: "nat option \<Rightarrow> bool" where
  "truthy_number n = (case n of None \<Rightarrow> False | Some k \<Rightarrow> k \<noteq> 0)"

text \<open>The body of the request to the transcription endpoint (lines 193 to 204).\<close>

record recognition_config =
  encoding :: string
  languageCode :: string
  sampleRateHertz :: "int option"

record recognition_audio =
  content :: string

record recognize_request =
  config :: recognition_config
  audio :: recognition_audio

text \<open>
  The JSON of the response: \<open>results\<close> may be absent; each result has a list of
  alternatives, each alternative a transcript.
\<close>

record speech_alternative =
  transcript :: string

record speech_result =
  alternatives :: "speech_alternative list"

record cloud_json =
  json_results :: "speech_result list option"

text \<open>
  The calls the hook makes to its collaborators. \<open>StopRecording exportWAV cb\<close> is
  \<open>stopRecording({exportWAV, wavCallback})\<close>: \<open>cb\<close> is \<open>None\<close> when no callback is
  passed, and \<open>Some c\<close> for the callback
  \<open>(blob) => handleBlobToBase64({blob, continuous: c})\<close>. \<open>Fetch url request\<close> is the
  \<open>POST\<close> of line 209.
\<close>

datatype call =
    Recognition_start
  | Recognition_stop
  | StartRecording "audio_context option"
  | StopRecording bool "bool option"
  | Track_stop media_stream
  | Hark media_stream "audio_context option"
  | OnStartSpeaking
  | OnStoppedSpeaking
  | SetTimeout nat nat
  | ClearTimeout "nat option"
  | ReadAsDataURL blob
  | Fetch string recognize_request

text \<open>
  The module-level \<open>recognition\<close> object: its \<open>continuous\<close> attribute and whether
  \<open>onresult\<close>, \<open>onaudiostart\<close> and \<open>onaudioend\<close> have been assigned.
\<close>

record speech_recognition =
  rec_continuous :: bool
  rec_handlers :: bool

text \<open>
  The state: the hook's cells and refs, the \<open>recognition\<close> object, and the part of the
  host the hook acts on: a clock in milliseconds, the pending timers (handle and due
  time), the next timer handle, the calls made so far, the exceptions no handler of
  the hook catches, and whether React has unmounted the tree after an exception in a
  render or in an effect.
\<close>

record hook =
  isRecording :: bool
  audioContextRef :: "audio_context option"
  results :: "string list"
  error :: string
  timeoutId :: "nat option"
  mediaStream :: "media_stream option"
  recognition :: "speech_recognition option"
  now :: nat
  timers :: "(nat \<times> nat) list"
  next_timer :: nat
  calls :: "call list"
  uncaught :: "js_error list"
  unmounted :: bool

text \<open>What the browser provides when the module is loaded and the hook is mounted.\<close>

record platform =
  isEdgeChromium :: bool
  SpeechRecognition :: bool
  AudioContext :: "audio_context option"
  getUserMedia :: bool

subsection \<open>State setters, calls and exceptions\<close>

definition call :: "call \<Rightarrow> hook \<Rightarrow> hook" where
  "call c w = w\<lparr>calls := calls w @ [c]\<rparr>"

text \<open>
  Two kinds of exception. \<open>throw\<close> is an exception in a callback that runs outside
  React (the rest of an \<open>async\<close> function, \<open>reader.onloadend\<close>): the callback ends
  there, what it did before stays done, and the rejection is unhandled. In both places
  where the hook can throw this way the exception is the last step of the model's
  function. \<open>unmount\<close> is an exception React meets while it renders or runs an effect:
  no error boundary is in place, so React unmounts the tree and the updates that were
  queued are never rendered.
\<close>

definition throw :: "js_error \<Rightarrow> hook \<Rightarrow> hook" where
  "throw e w = w\<lparr>uncaught := uncaught w @ [e]\<rparr>"

definition unmount :: "js_error \<Rightarrow> hook \<Rightarrow> hook" where
  "unmount e w = w\<lparr>uncaught := uncaught w @ [e], unmounted := True\<rparr>"

definition setIsRecording :: "bool \<Rightarrow> hook \<Rightarrow> hook" where
  "setIsRecording b w = w\<lparr>isRecording := b\<rparr>"

definition setError :: "string \<Rightarrow> hook \<Rightarrow> hook" where
  "setError s w = w\<lparr>error := s\<rparr>"

text \<open>
  \<open>setResults\<close> is always called with an updater, and always from a callback of the
  browser (after an \<open>await\<close>, or from \<open>recognition.onresult\<close>), outside React's
  batching. On a legacy root (React 16.8 to 17) React renders such an update before
  \<open>setResults\<close> returns and applies the updater to the previous list; when the updater
  throws, the exception comes out of the call of \<open>setResults\<close>: the list stays as it
  was, the caller does not reach its next statement, and React unmounts the tree. The
  result is \<open>Inl\<close> for that exception; the caller below ends with \<open>unmount\<close>.
\<close>

definition setResults ::
  "(string list \<Rightarrow> js_error + string list) \<Rightarrow> hook \<Rightarrow> js_error + hook" where
  "setResults f w = (case f (results w) of Inl e \<Rightarrow> Inl e | Inr r \<Rightarrow> Inr (w\<lparr>results := r\<rparr>))"

text \<open>\<open>mediaStream.current?.getAudioTracks()[0].stop()\<close>\<close>

definition stop_track :: "hook \<Rightarrow> hook" where
  "stop_track w = (case mediaStream w of None \<Rightarrow> w | Some m \<Rightarrow> call (Track_stop m) w)"

text \<open>
  \<open>window.setTimeout\<close> returns a fresh handle and the callback becomes due after the
  delay; \<open>clearTimeout\<close> removes the timer with the given handle, if there is one.
\<close>

definition clearTimeout :: "nat option \<Rightarrow> hook \<Rightarrow> hook" where
  "clearTimeout h w =
     call (ClearTimeout h)
       (case h of None \<Rightarrow> w | Some i \<Rightarrow> w\<lparr>timers := filter (\<lambda>t. fst t \<noteq> i) (timers w)\<rparr>)"

subsection \<open>Module initialisation and mount (lines 8 to 60)\<close>

definition recognition_init :: "platform \<Rightarrow> speech_recognition option" where
  "recognition_init pl =
     (if \<not> isEdgeChromium pl \<and> SpeechRecognition pl
      then Some \<lparr>rec_continuous = False, rec_handlers = False\<rparr> else None)"

definition useSpeechToText :: "platform \<Rightarrow> hook" where
  "useSpeechToText pl =
     \<lparr>isRecording = False, audioContextRef = None, results = [], error = [],
      timeoutId = None, mediaStream = None, recognition = recognition_init pl,
      now = 0, timers = [], next_timer = 1, calls = [], uncaught = [],
      unmounted = False\<rparr>"

text \<open>
  The effect of mount. Where the browser has no \<open>AudioContext\<close>, \<open>new AudioContext()\<close>
  throws inside the effect: React unmounts the tree and the messages the effect has just
  queued with \<open>setError\<close> are never rendered, so the state is the one before the effect.
\<close>

definition mount :: "platform \<Rightarrow> UseSpeechToTextTypes \<Rightarrow> hook \<Rightarrow> hook" where
  "mount pl p w =
     (let w1 = (if \<not> truthy (crossBrowser p) \<and> recognition w = None
                then setError ''Speech Recognition API is only available on Chrome'' w
                else w);
          w2 = (if \<not> getUserMedia pl
                then setError ''getUserMedia is not supported on this device/browser :('' w1
                else w1)
      in if audioContextRef w2 = None
         then (case AudioContext pl of
                 None \<Rightarrow> unmount TypeError w
               | Some ctx \<Rightarrow> w2\<lparr>audioContextRef := Some ctx\<rparr>)
         else w2)"

subsection \<open>The native path (lines 64 to 90)\<close>

definition chromeSpeechRecognition :: "UseSpeechToTextTypes \<Rightarrow> hook \<Rightarrow> hook" where
  "chromeSpeechRecognition p w =
     (case recognition w of
        None \<Rightarrow> w
      | Some r \<Rightarrow>
          (let r1 = (if truthy (continuous p) then r\<lparr>rec_continuous := True\<rparr> else r);
               w1 = call Recognition_start (w\<lparr>recognition := Some r1\<rparr>)
           in w1\<lparr>recognition := Some (r1\<lparr>rec_handlers := True\<rparr>)\<rparr>))"

text \<open>
  \<open>e.results[e.results.length - 1][0].transcript\<close>: the first alternative of the last
  result. With no result, or no alternative in the last result, the expression reads a
  property of \<open>undefined\<close> and the updater throws.
\<close>

definition last_transcript :: "speech_alternative list list \<Rightarrow> js_error + string" where
  "last_transcript rs =
     (if rs = [] then Inl TypeError
      else (case last rs of [] \<Rightarrow> Inl TypeError | a # _ \<Rightarrow> Inr (transcript a)))"

definition append_result :: "js_error + string \<Rightarrow> string list \<Rightarrow> js_error + string list" where
  "append_result t prevResults =
     (case t of Inl e \<Rightarrow> Inl e | Inr s \<Rightarrow> Inr (prevResults @ [s]))"

definition onresult :: "speech_alternative list list option \<Rightarrow> hook \<Rightarrow> hook" where
  "onresult e_results w =
     (case e_results of
        None \<Rightarrow> w
      | Some rs \<Rightarrow>
          (case setResults (append_result (last_transcript rs)) w of
             Inl e \<Rightarrow> unmount e w
           | Inr w1 \<Rightarrow> w1))"

definition onaudiostart :: "hook \<Rightarrow> hook" where
  "onaudiostart w = setIsRecording True w"

definition onaudioend :: "hook \<Rightarrow> hook" where
  "onaudioend w = setIsRecording False w"

subsection \<open>Starting (lines 92 to 149)\<close>

text \<open>
  \<open>startSpeechToText\<close> up to its \<open>await\<close>: the native path, the return when
  \<open>crossBrowser\<close> is off, or the call of \<open>startRecording\<close>.
\<close>

definition startSpeechToText :: "UseSpeechToTextTypes \<Rightarrow> hook \<Rightarrow> hook" where
  "startSpeechToText p w =
     (if recognition w \<noteq> None then chromeSpeechRecognition p w
      else if \<not> truthy (crossBrowser p) then w
      else call (StartRecording (audioContextRef w)) w)"

text \<open>The \<open>errHandler\<close> passed to \<open>startRecording\<close> (line 103).\<close>

definition errHandler :: "hook \<Rightarrow> hook" where
  "errHandler w = setError ''Microphone permission was denied'' w"

text \<open>
  The body of the callback given to \<open>setTimeout\<close> (lines 166 to 168), and
  \<open>handleRecordingTimeout\<close>, which schedules it and stores the handle.
\<close>

definition timeout_callback :: "hook \<Rightarrow> hook" where
  "timeout_callback w = call (StopRecording False None) (stop_track (setIsRecording False w))"

definition handleRecordingTimeout :: "UseSpeechToTextTypes \<Rightarrow> hook \<Rightarrow> hook" where
  "handleRecordingTimeout p w =
     (let d = (case timeout p of None \<Rightarrow> 0 | Some t \<Rightarrow> t);
          i = next_timer w
      in call (SetTimeout i d)
           (w\<lparr>timeoutId := Some i, timers := timers w @ [(i, now w + d)],
              next_timer := Suc i\<rparr>))"

text \<open>
  \<open>startSpeechToText\<close> after its \<open>await\<close>, with the value \<open>startRecording\<close> resolved
  to (\<open>None\<close> for \<open>undefined\<close>, on which \<open>stream.clone()\<close> throws).
\<close>

definition startSpeechToText_resume ::
  "UseSpeechToTextTypes \<Rightarrow> media_stream option \<Rightarrow> hook \<Rightarrow> hook" where
  "startSpeechToText_resume p stream w =
     (let w1 = (if truthy_number (timeout p) then handleRecordingTimeout p w else w);
          w2 = (case mediaStream w1 of None \<Rightarrow> w1 | Some m \<Rightarrow> call (Track_stop m) w1)
      in case stream of
           None \<Rightarrow> throw TypeError w2
         | Some s \<Rightarrow>
             (let w3 = w2\<lparr>mediaStream := Some (Clone s)\<rparr>;
                  w4 = call (Hark (Clone s) (audioContextRef w3)) w3
              in setIsRecording True w4))"

text \<open>The two Hark listeners (lines 124 to 146).\<close>

definition speaking :: "UseSpeechToTextTypes \<Rightarrow> hook \<Rightarrow> hook" where
  "speaking p w =
     (let w1 = (if onStartSpeaking p then call OnStartSpeaking w else w)
      in clearTimeout (timeoutId w1) w1)"

definition stopped_speaking :: "UseSpeechToTextTypes \<Rightarrow> hook \<Rightarrow> hook" where
  "stopped_speaking p w =
     (let w1 = (if onStoppedSpeaking p then call OnStoppedSpeaking w else w)
      in call (StopRecording True (Some (truthy (continuous p))))
           (stop_track (setIsRecording False w1)))"

subsection \<open>Stopping (lines 151 to 162)\<close>

definition stopSpeechToText :: "hook \<Rightarrow> hook" where
  "stopSpeechToText w =
     (if recognition w \<noteq> None then call Recognition_stop w
      else call (StopRecording True (Some False)) (stop_track (setIsRecording False w)))"

subsection \<open>Submitting the audio (lines 172 to 231)\<close>

text \<open>\<open>String.prototype.indexOf\<close> of a character and \<open>String.prototype.substr\<close> with one argument.\<close>

fun indexOf :: "string \<Rightarrow> char \<Rightarrow> int" where
  "indexOf [] c = - 1"
| "indexOf (x # xs) c =
     (if x = c then 0 else (let i = indexOf xs c in if i < 0 then - 1 else i + 1))"

definition substr :: "string \<Rightarrow> int \<Rightarrow> string" where
  "substr s start =
     (if start < 0 then drop (nat (int (length s) + start)) s else drop (nat start) s)"

text \<open>
  \<open>handleBlobToBase64\<close> itself only starts the reader (lines 179 to 180); its
  \<open>continuous\<close> argument is read by \<open>reader.onloadend\<close>, after the response.
\<close>

definition handleBlobToBase64 :: "blob \<Rightarrow> bool \<Rightarrow> hook \<Rightarrow> hook" where
  "handleBlobToBase64 b c w = call (ReadAsDataURL b) w"

text \<open>Lines 185 to 191: the sample rate of the request.\<close>

definition request_sampleRate :: "hook \<Rightarrow> int option" where
  "request_sampleRate w =
     (case audioContextRef w of
        None \<Rightarrow> None
      | Some ctx \<Rightarrow>
          (let r = sampleRate ctx in if r \<noteq> 0 \<and> r > 48000 then Some 48000 else Some r))"

definition request_url :: "UseSpeechToTextTypes \<Rightarrow> string" where
  "request_url p =
     ''https://speech.googleapis.com/v1/speech:recognize?key=''
       @ (case googleApiKey p of None \<Rightarrow> ''undefined'' | Some k \<Rightarrow> k)"

definition request_data :: "string \<Rightarrow> hook \<Rightarrow> recognize_request" where
  "request_data base64data w =
     \<lparr>config = \<lparr>encoding = ''LINEAR16'', languageCode = ''en-US'',
                 sampleRateHertz = request_sampleRate w\<rparr>,
      audio = \<lparr>content = substr base64data (indexOf base64data (CHR '','') + 1)\<rparr>\<rparr>"

text \<open>
  \<open>reader.onloadend\<close> up to the \<open>await\<close> of \<open>fetch\<close>. \<open>reader.result\<close> is \<open>null\<close> when the
  read failed, and \<open>substr\<close> of it throws before anything is sent.
\<close>

definition onloadend :: "UseSpeechToTextTypes \<Rightarrow> string option \<Rightarrow> hook \<Rightarrow> hook" where
  "onloadend p reader_result w =
     (case reader_result of
        None \<Rightarrow> throw TypeError w
      | Some base64data \<Rightarrow> call (Fetch (request_url p) (request_data base64data w)) w)"

text \<open>
  \<open>googleCloudJson.results[0].alternatives[0].transcript\<close>, evaluated by the updater
  when the result list is not empty.
\<close>

definition first_transcript :: "speech_result list \<Rightarrow> js_error + string" where
  "first_transcript rs =
     (case rs of
        [] \<Rightarrow> Inl TypeError
      | r # _ \<Rightarrow> (case alternatives r of [] \<Rightarrow> Inl TypeError | a # _ \<Rightarrow> Inr (transcript a)))"

text \<open>
  \<open>reader.onloadend\<close> after the response has been read as JSON (lines 219 to 229);
  \<open>c\<close> is the \<open>continuous\<close> argument \<open>handleBlobToBase64\<close> was called with. When
  the updater throws, line 227 is not reached.
\<close>

definition onloadend_response ::
  "UseSpeechToTextTypes \<Rightarrow> cloud_json \<Rightarrow> bool \<Rightarrow> hook \<Rightarrow> hook" where
  "onloadend_response p googleCloudJson c w =
     (case (case json_results googleCloudJson of
              None \<Rightarrow> Inr w
            | Some rs \<Rightarrow>
                if length rs > 0 then setResults (append_result (first_transcript rs)) w
                else Inr w) of
        Inl e \<Rightarrow> unmount e w
      | Inr w1 \<Rightarrow> if c then startSpeechToText p w1 else w1)"

text \<open>The responses on which the updater of line 221 does not throw.\<close>

definition response_processed :: "cloud_json \<Rightarrow> bool" where
  "response_processed googleCloudJson =
     (case json_results googleCloudJson of
        None \<Rightarrow> True
      | Some rs \<Rightarrow>
          if length rs > 0
          then (case first_transcript rs of Inl e \<Rightarrow> False | Inr t \<Rightarrow> True)
          else True)"

subsection \<open>Events\<close>

text \<open>
  A timer that is pending and due runs its callback once; a handle that is not pending,
  or not yet due, runs nothing.
\<close>

definition due_timer :: "nat \<Rightarrow> hook \<Rightarrow> bool" where
  "due_timer i w = (case map_of (timers w) i of None \<Rightarrow> False | Some due \<Rightarrow> due \<le> now w)"

definition timer_fires :: "nat \<Rightarrow> hook \<Rightarrow> hook" where
  "timer_fires i w =
     (if due_timer i w
      then timeout_callback (w\<lparr>timers := filter (\<lambda>t. fst t \<noteq> i) (timers w)\<rparr>)
      else w)"

definition elapse :: "nat \<Rightarrow> hook \<Rightarrow> hook" where
  "elapse d w = w\<lparr>now := now w + d\<rparr>"

text \<open>
  The events of a run: the two functions the hook exports, and every callback the hook
  hands to a collaborator. The boolean of \<open>Wav_exported\<close>, \<open>Reader_loadend\<close> and
  \<open>Response\<close> is the \<open>continuous\<close> argument of the \<open>wavCallback\<close> that started the
  submission. The events of the recognizer run the handlers only once they are assigned.

  Once React has unmounted the tree, the callbacks the hook has handed out still run when
  their events arrive and still reach the refs and the collaborators, but the setters of
  the three cells do nothing any more, and the effect of mount does not run again.
\<close>

datatype event =
    Mount platform
  | Start
  | Recording_started "media_stream option"
  | Recording_refused
  | Stop
  | Speaking
  | Stopped_speaking
  | Wav_exported blob bool
  | Reader_loadend "string option" bool
  | Response cloud_json bool
  | Recognition_result "speech_alternative list list option"
  | Recognition_audiostart
  | Recognition_audioend
  | Timer nat
  | Elapse nat

definition handlers_assigned :: "hook \<Rightarrow> bool" where
  "handlers_assigned w = (case recognition w of None \<Rightarrow> False | Some r \<Rightarrow> rec_handlers r)"

fun dispatch :: "UseSpeechToTextTypes \<Rightarrow> hook \<Rightarrow> event \<Rightarrow> hook" where
  "dispatch p w (Mount pl) = (if unmounted w then w else mount pl p w)"
| "dispatch p w Start = startSpeechToText p w"
| "dispatch p w (Recording_started stream) = startSpeechToText_resume p stream w"
| "dispatch p w Recording_refused = errHandler w"
| "dispatch p w Stop = stopSpeechToText w"
| "dispatch p w Speaking = speaking p w"
| "dispatch p w Stopped_speaking = stopped_speaking p w"
| "dispatch p w (Wav_exported b c) = handleBlobToBase64 b c w"
| "dispatch p w (Reader_loadend r c) = onloadend p r w"
| "dispatch p w (Response j c) = onloadend_response p j c w"
| "dispatch p w (Recognition_result e) = (if handlers_assigned w then onresult e w else w)"
| "dispatch p w Recognition_audiostart = (if handlers_assigned w then onaudiostart w else w)"
| "dispatch p w Recognition_audioend = (if handlers_assigned w then onaudioend w else w)"
| "dispatch p w (Timer i) = timer_fires i w"
| "dispatch p w (Elapse d) = elapse d w"

definition keep_cells :: "hook \<Rightarrow> hook \<Rightarrow> hook" where
  "keep_cells w w' =
     w'\<lparr>isRecording := isRecording w, results := results w, error := error w\<rparr>"

definition step :: "UseSpeechToTextTypes \<Rightarrow> hook \<Rightarrow> event \<Rightarrow> hook" where
  "step p w e = (if unmounted w then keep_cells w (dispatch p w e) else dispatch p w e)"

definition run :: "UseSpeechToTextTypes \<Rightarrow> hook \<Rightarrow> event list \<Rightarrow> hook" where
  "run p w es = foldl (step p) w es"

subsection \<open>Sample platforms, options and inputs\<close>

definition fallback_platform :: platform where
  "fallback_platform =
     \<lparr>isEdgeChromium = False, SpeechRecognition = False,
      AudioContext = Some \<lparr>sampleRate = 96000\<rparr>, getUserMedia = True\<rparr>"

definition bare_platform :: platform where
  "bare_platform =
     \<lparr>isEdgeChromium = False, SpeechRecognition = False,
      AudioContext = Some \<lparr>sampleRate = 44100\<rparr>, getUserMedia = False\<rparr>"

definition default_options :: UseSpeechToTextTypes where
  "default_options =
     \<lparr>continuous = None, crossBrowser = None, googleApiKey = None,
      onStartSpeaking = False, onStoppedSpeaking = False, timeout = None\<rparr>"

definition fallback_options :: UseSpeechToTextTypes where
  "fallback_options =
     \<lparr>continuous = Some True, crossBrowser = Some True, googleApiKey = Some ''KEY'',
      onStartSpeaking = False, onStoppedSpeaking = False, timeout = Some 5000\<rparr>"

definition single_options :: UseSpeechToTextTypes where
  "single_options =
     \<lparr>continuous = Some False, crossBrowser = Some True, googleApiKey = Some ''KEY'',
      onStartSpeaking = False, onStoppedSpeaking = False, timeout = None\<rparr>"

definition wav_data_url :: string where
  "wav_data_url = ''data:audio/wav;base64,UklGRg==''"

definition hello_json :: cloud_json where
  "hello_json = \<lparr>json_results = Some [\<lparr>alternatives = [\<lparr>transcript = ''hello''\<rparr>]\<rparr>]\<rparr>"

definition no_alternative_json :: cloud_json where
  "no_alternative_json = \<lparr>json_results = Some [\<lparr>alternatives = []\<rparr>]\<rparr>"

definition empty_json :: cloud_json where
  "empty_json = \<lparr>json_results = None\<rparr>"

text \<open>
  A continuous session in the fallback path: mount, start, the stream arrives, speech
  starts and stops, the audio is exported, read and sent, the response arrives and the
  session restarts with a second stream.
\<close>

definition continuous_session :: "event list" where
  "continuous_session =
     [Mount fallback_platform, Start, Recording_started (Some (Microphone 1)), Speaking,
      Stopped_speaking, Wav_exported 0 True, Reader_loadend (Some wav_data_url) True,
      Response hello_json True, Recording_started (Some (Microphone 2))]"

text \<open>The state of that session while the first stream is recorded and speech is heard.\<close>

definition while_speaking :: hook where
  "while_speaking =
     run fallback_options (useSpeechToText fallback_platform)
       [Mount fallback_platform, Start, Recording_started (Some (Microphone 1)), Speaking]"


text \<open>
  Two sessions with a timeout of 5000 ms: the first is started at 0 and stopped by hand at
  1000, without speech, and its audio is submitted; the second is started at 2000 and
  speech is heard at 3000.
\<close>

definition stopped_and_restarted :: "event list" where
  "stopped_and_restarted =
     [Mount fallback_platform, Start, Recording_started (Some (Microphone 1)), Elapse 1000,
      Stop, Wav_exported 0 False, Reader_loadend (Some wav_data_url) False,
      Response empty_json False, Elapse 1000, Start,
      Recording_started (Some (Microphone 2)), Elapse 1000, Speaking]"



text \<open>A request, as opposed to any other call.\<close>

definition is_fetch :: "call \<Rightarrow> bool" where
  "is_fetch c = (case c of Fetch u r \<Rightarrow> True | _ \<Rightarrow> False)"

section \<open>Proofs\<close>

subsection \<open>What each function does to the fields\<close>

lemmas setter_defs = call_def throw_def unmount_def setIsRecording_def setError_def
  setResults_def stop_track_def clearTimeout_def

lemmas handler_defs = mount_def chromeSpeechRecognition_def onresult_def onaudiostart_def
  onaudioend_def startSpeechToText_def errHandler_def timeout_callback_def
  handleRecordingTimeout_def startSpeechToText_resume_def speaking_def stopped_speaking_def
  stopSpeechToText_def handleBlobToBase64_def onloadend_def onloadend_response_def
  timer_fires_def elapse_def

lemmas sample_defs = fallback_platform_def bare_platform_def default_options_def
  fallback_options_def single_options_def wav_data_url_def hello_json_def no_alternative_json_def empty_json_def
  useSpeechToText_def recognition_init_def truthy_def truthy_number_def

lemmas eval_defs = handler_defs setter_defs sample_defs Let_def request_data_def
  request_url_def request_sampleRate_def first_transcript_def append_result_def due_timer_def
  step_def keep_cells_def

lemma run_Nil: "run p w [] = w"
  by (simp add: run_def)

lemma run_Cons: "run p w (e # es) = run p (step p w e) es"
  by (simp add: run_def)

lemma run_append: "run p w (es @ es') = run p (run p w es) es'"
  by (simp add: run_def)

lemma startSpeechToText_fields:
  "results (startSpeechToText p w) = results w"
  "mediaStream (startSpeechToText p w) = mediaStream w"
  "isRecording (startSpeechToText p w) = isRecording w"
  "error (startSpeechToText p w) = error w"
  "unmounted (startSpeechToText p w) = unmounted w"
  "audioContextRef (startSpeechToText p w) = audioContextRef w"
  by (simp_all add: startSpeechToText_def chromeSpeechRecognition_def call_def Let_def
      split: option.splits)

lemma calls_startSpeechToText:
  "calls (startSpeechToText p w) = calls w @
     (if recognition w \<noteq> None then [Recognition_start]
      else if truthy (crossBrowser p) then [StartRecording (audioContextRef w)] else [])"
  by (auto simp add: startSpeechToText_def chromeSpeechRecognition_def call_def Let_def
      split: option.splits)

lemma results_onloadend_response:
  "results (onloadend_response p j c w) =
     (case json_results j of
        None \<Rightarrow> results w
      | Some [] \<Rightarrow> results w
      | Some (r # _) \<Rightarrow>
          (case alternatives r of [] \<Rightarrow> results w | a # _ \<Rightarrow> results w @ [transcript a]))"
  by (simp add: onloadend_response_def setResults_def append_result_def first_transcript_def
      unmount_def startSpeechToText_fields split: option.splits list.splits)

lemma calls_onloadend_response:
  "calls (onloadend_response p j c w) = calls w @
     (if c \<and> response_processed j
      then (if recognition w \<noteq> None then [Recognition_start]
            else if truthy (crossBrowser p) then [StartRecording (audioContextRef w)]
            else [])
      else [])"
  by (auto simp add: onloadend_response_def response_processed_def setResults_def
      append_result_def unmount_def calls_startSpeechToText
      split: option.splits sum.splits)

lemma onloadend_response_fields:
  "mediaStream (onloadend_response p j c w) = mediaStream w"
  "isRecording (onloadend_response p j c w) = isRecording w"
  "error (onloadend_response p j c w) = error w"
  "audioContextRef (onloadend_response p j c w) = audioContextRef w"
  by (auto simp add: onloadend_response_def setResults_def append_result_def unmount_def
      startSpeechToText_fields split: option.splits sum.splits)


text \<open>On a response whose updater throws the handler ends at line 221, whatever \<open>c\<close> is.\<close>

lemma onloadend_response_throws:
  assumes "\<not> response_processed j"
  shows "onloadend_response p j c w = unmount TypeError w"
  using assms
  by (auto simp add: onloadend_response_def response_processed_def setResults_def
      append_result_def first_transcript_def split: option.splits sum.splits list.splits)

lemma onresult_fields:
  "calls (onresult r w) = calls w"
  "error (onresult r w) = error w"
  "audioContextRef (onresult r w) = audioContextRef w"
  by (simp_all add: onresult_def setResults_def unmount_def split: option.splits sum.splits)

lemma results_onresult:
  "results (onresult r w) = results w \<or> (\<exists>x. results (onresult r w) = results w @ [x])"
  by (auto simp add: onresult_def setResults_def append_result_def unmount_def
      split: option.splits sum.splits)

lemma calls_stopped_speaking:
  "calls (stopped_speaking p w) = calls w @
     (if onStoppedSpeaking p then [OnStoppedSpeaking] else []) @
     (case mediaStream w of None \<Rightarrow> [] | Some m \<Rightarrow> [Track_stop m]) @
     [StopRecording True (Some (truthy (continuous p)))]"
  by (simp add: stopped_speaking_def setter_defs Let_def split: option.splits)

lemma stopped_speaking_fields:
  "mediaStream (stopped_speaking p w) = mediaStream w"
  "isRecording (stopped_speaking p w) = False"
  "unmounted (stopped_speaking p w) = unmounted w"
  "recognition (stopped_speaking p w) = recognition w"
  "audioContextRef (stopped_speaking p w) = audioContextRef w"
  by (simp_all add: stopped_speaking_def setter_defs Let_def split: option.splits)

lemma calls_stopSpeechToText:
  "calls (stopSpeechToText w) = calls w @
     (if recognition w \<noteq> None then [Recognition_stop]
      else (case mediaStream w of None \<Rightarrow> [] | Some m \<Rightarrow> [Track_stop m]) @
           [StopRecording True (Some False)])"
  by (simp add: stopSpeechToText_def setter_defs split: option.splits)

lemma calls_timeout_callback:
  "calls (timeout_callback w) = calls w @
     (case mediaStream w of None \<Rightarrow> [] | Some m \<Rightarrow> [Track_stop m]) @
     [StopRecording False None]"
  by (simp add: timeout_callback_def setter_defs split: option.splits)

lemma timeout_callback_fields:
  "results (timeout_callback w) = results w"
  "isRecording (timeout_callback w) = False"
  by (simp_all add: timeout_callback_def setter_defs split: option.splits)

lemma calls_timer_fires:
  "calls (timer_fires i w) = calls w @
     (if due_timer i w
      then (case mediaStream w of None \<Rightarrow> [] | Some m \<Rightarrow> [Track_stop m]) @
           [StopRecording False None]
      else [])"
  by (simp add: timer_fires_def calls_timeout_callback)

lemma results_timer_fires: "results (timer_fires i w) = results w"
  by (simp add: timer_fires_def timeout_callback_fields)

lemma calls_startSpeechToText_resume:
  "calls (startSpeechToText_resume p stream w) = calls w @
     (if truthy_number (timeout p) then [SetTimeout (next_timer w) (the (timeout p))] else []) @
     (case mediaStream w of None \<Rightarrow> [] | Some m \<Rightarrow> [Track_stop m]) @
     (case stream of None \<Rightarrow> [] | Some s \<Rightarrow> [Hark (Clone s) (audioContextRef w)])"
  by (auto simp add: startSpeechToText_resume_def handleRecordingTimeout_def setter_defs Let_def
      truthy_number_def split: option.splits)

lemma error_mount:
  "error (mount pl p w) =
     (if audioContextRef w = None \<and> AudioContext pl = None then error w
      else if \<not> getUserMedia pl
        then ''getUserMedia is not supported on this device/browser :(''
      else if \<not> truthy (crossBrowser p) \<and> recognition w = None
        then ''Speech Recognition API is only available on Chrome''
      else error w)"
  by (auto simp add: mount_def setError_def unmount_def Let_def split: option.splits)

text \<open>
  Without \<open>AudioContext\<close> the effect of mount throws: the tree is unmounted and no message
  is rendered.
\<close>

lemma mount_without_AudioContext:
  assumes "audioContextRef w = None" and "AudioContext pl = None"
  shows "mount pl p w = unmount TypeError w"
  using assms by (simp add: mount_def setError_def Let_def)

subsection \<open>Every step of a run\<close>

lemma step_fields:
  "calls (step p w e) = calls (dispatch p w e)"
  "mediaStream (step p w e) = mediaStream (dispatch p w e)"
  "audioContextRef (step p w e) = audioContextRef (dispatch p w e)"
  "recognition (step p w e) = recognition (dispatch p w e)"
  "unmounted (step p w e) = unmounted (dispatch p w e)"
  by (simp_all add: step_def keep_cells_def)

lemma step_mounted: "\<not> unmounted w \<Longrightarrow> step p w e = dispatch p w e"
  by (simp add: step_def)

lemma results_dispatch:
  "results (dispatch p w e) = results w \<or> (\<exists>x. results (dispatch p w e) = results w @ [x])"
proof (cases e)
  case (Response j c)
  then show ?thesis
    by (simp add: results_onloadend_response split: option.splits list.splits)
next
  case (Recognition_result r)
  then show ?thesis using results_onresult [of r w] by simp
next
  case (Timer i)
  then show ?thesis by (simp add: results_timer_fires)
qed (simp_all add: handler_defs setter_defs Let_def startSpeechToText_fields
    split: option.splits)

lemma results_step:
  "results (step p w e) = results w \<or> (\<exists>x. results (step p w e) = results w @ [x])"
  using results_dispatch [of p w e] by (simp add: step_def keep_cells_def)

lemma results_run: "prefix (results w) (results (run p w es))"
proof (induction es arbitrary: w)
  case Nil
  then show ?case by (simp add: run_Nil)
next
  case (Cons e es)
  have "prefix (results w) (results (step p w e))"
    using results_step [of p w e] by auto
  also have "prefix (results (step p w e)) (results (run p (step p w e) es))"
    by (rule Cons.IH)
  finally show ?case by (simp add: run_Cons)
qed

lemma error_dispatch:
  "error (dispatch p w e) \<in>
     {error w, ''Speech Recognition API is only available on Chrome'',
      ''getUserMedia is not supported on this device/browser :('',
      ''Microphone permission was denied''}"
proof (cases e)
  case (Mount pl)
  then show ?thesis by (simp add: error_mount)
next
  case (Response j c)
  then show ?thesis by (simp add: onloadend_response_fields)
next
  case (Recognition_result r)
  then show ?thesis by (simp add: onresult_fields)
qed (simp_all add: handler_defs setter_defs Let_def split: option.splits)

lemma error_step:
  "error (step p w e) \<in>
     {error w, ''Speech Recognition API is only available on Chrome'',
      ''getUserMedia is not supported on this device/browser :('',
      ''Microphone permission was denied''}"
  using error_dispatch [of p w e] by (simp add: step_def keep_cells_def)

lemma audioContextRef_step:
  assumes "audioContextRef w = Some ctx"
  shows "audioContextRef (step p w e) = Some ctx"
proof (cases e)
  case (Mount pl)
  then show ?thesis
    using assms by (simp add: step_fields mount_def setError_def Let_def)
next
  case (Response j c)
  then show ?thesis
    using assms by (simp add: step_fields onloadend_response_fields)
next
  case (Recognition_result r)
  then show ?thesis
    using assms by (simp add: step_fields onresult_fields)
qed (use assms in \<open>simp_all add: step_fields handler_defs setter_defs Let_def
    split: option.splits\<close>)

lemma audioContextRef_run:
  assumes "audioContextRef w = Some ctx"
  shows "audioContextRef (run p w es) = Some ctx"
  using assms
proof (induction es arbitrary: w)
  case Nil
  then show ?case by (simp add: run_Nil)
next
  case (Cons e es)
  from Cons.prems have "audioContextRef (step p w e) = Some ctx"
    by (rule audioContextRef_step)
  then show ?case by (simp add: run_Cons Cons.IH)
qed

lemma fetch_step:
  "filter is_fetch (calls (step p w e)) = filter is_fetch (calls w) @
     (case e of
        Reader_loadend (Some d) c \<Rightarrow> [Fetch (request_url p) (request_data d w)]
      | _ \<Rightarrow> [])"
proof (cases e)
  case (Mount pl)
  then show ?thesis
    by (simp add: step_fields mount_def setError_def unmount_def Let_def split: option.splits)
next
  case (Response j c)
  then show ?thesis by (simp add: step_fields calls_onloadend_response is_fetch_def)
next
  case (Timer i)
  then show ?thesis
    by (simp add: step_fields calls_timer_fires is_fetch_def split: option.splits)
next
  case (Recognition_result r)
  then show ?thesis by (simp add: step_fields onresult_fields)
qed (simp_all add: step_fields handler_defs setter_defs Let_def is_fetch_def
    split: option.splits)

subsection \<open>The data URL and the sample rate\<close>

lemma indexOf_absent: "c \<notin> set s \<Longrightarrow> indexOf s c = - 1"
  by (induction s) (auto simp add: Let_def)

lemma indexOf_present:
  "c \<in> set s \<Longrightarrow> indexOf s c = int (length (takeWhile (\<lambda>x. x \<noteq> c) s))"
proof (induction s)
  case Nil
  then show ?case by simp
next
  case (Cons x xs)
  show ?case
  proof (cases "x = c")
    case True
    then show ?thesis by simp
  next
    case False
    with Cons.prems have "c \<in> set xs" by simp
    with Cons.IH False show ?thesis by (simp add: Let_def)
  qed
qed

lemma substr_after_indexOf:
  "substr s (indexOf s c + 1) =
     (if c \<in> set s then tl (dropWhile (\<lambda>x. x \<noteq> c) s) else s)"
proof (cases "c \<in> set s")
  case True
  have "drop (Suc (length (takeWhile (\<lambda>x. x \<noteq> c) s))) s = tl (dropWhile (\<lambda>x. x \<noteq> c) s)"
    by (simp add: drop_Suc dropWhile_eq_drop tl_drop)
  with True show ?thesis
    by (simp add: substr_def indexOf_present nat_add_distrib)
next
  case False
  then show ?thesis by (simp add: substr_def indexOf_absent)
qed

lemma request_sampleRate_capped:
  "request_sampleRate w =
     map_option (\<lambda>ctx. if sampleRate ctx > 48000 then 48000 else sampleRate ctx)
       (audioContextRef w)"
  by (auto simp add: request_sampleRate_def Let_def split: option.splits)

subsection \<open>The auto-stop of the session started last\<close>

text \<open>
  \<open>startSpeechToText\<close>, once the stream has arrived and with a timeout that is set and not
  zero, schedules the callback for \<open>timeout\<close> milliseconds later and stores its handle.
\<close>

lemma auto_stop_scheduled:
  assumes "timeout p = Some d" and "d \<noteq> 0"
  shows "timeoutId (startSpeechToText_resume p (Some s) w) = Some (next_timer w)"
    and "timers (startSpeechToText_resume p (Some s) w) = timers w @ [(next_timer w, now w + d)]"
    and "mediaStream (startSpeechToText_resume p (Some s) w) = Some (Clone s)"
    and "isRecording (startSpeechToText_resume p (Some s) w)"
  using assms
  by (simp_all add: startSpeechToText_resume_def handleRecordingTimeout_def setter_defs Let_def
      truthy_number_def split: option.splits)

text \<open>A timer does nothing before it is due; when it is due, it stops the recording.\<close>

lemma auto_stop_not_early:
  assumes "map_of (timers w) i = Some due" and "now w < due"
  shows "timer_fires i w = w"
  using assms by (simp add: timer_fires_def due_timer_def)

lemma auto_stop_fires:
  assumes "due_timer i w" and "mediaStream w = Some m"
  shows "isRecording (timer_fires i w) = False"
    and "calls (timer_fires i w) = calls w @ [Track_stop m, StopRecording False None]"
  using assms by (simp_all add: calls_timer_fires) (simp add: timer_fires_def timeout_callback_fields)

text \<open>A \<open>speaking\<close> event clears the timer whose handle is stored: it never fires afterwards.\<close>

lemma map_of_filter_fst: "map_of (filter (\<lambda>t. fst t \<noteq> i) ts) i = None"
  by (induction ts) auto

lemma speaking_clears_stored_handle:
  assumes "timeoutId w = Some i"
  shows "timer_fires i (elapse t (speaking p w)) = elapse t (speaking p w)"
  using assms
  by (simp add: timer_fires_def due_timer_def elapse_def speaking_def clearTimeout_def call_def
      Let_def map_of_filter_fst)


section \<open>The claims\<close>

subsection \<open>C1: what a response appends\<close>

text \<open>
  Claim C1 says that every response with a non-empty result list appends exactly one
  entry, the transcript of the first alternative of the first result, and that an empty or
  absent result list appends nothing. The hook guards the result list
  (\<open>results?.length > 0\<close>) but not the alternatives: for the response
  \<open>{results: [{alternatives: []}]}\<close> the result list is not empty, the updater reads
  \<open>transcript\<close> of \<open>undefined\<close> and throws, and nothing is appended.
\<close>

theorem response_without_alternative_appends_nothing:
  "json_results no_alternative_json = Some [\<lparr>alternatives = []\<rparr>] \<and>
   length [\<lparr>alternatives = []\<rparr>] > 0 \<and>
   results (onloadend_response fallback_options no_alternative_json False
              (useSpeechToText fallback_platform)) =
     results (useSpeechToText fallback_platform) \<and>
   uncaught (onloadend_response fallback_options no_alternative_json False
              (useSpeechToText fallback_platform)) = [TypeError]"
  by (simp add: eval_defs)

text \<open>
  C1 as amended: the response handler appends exactly one entry, the transcript of the
  first alternative of the first result, when the result list is non-empty and its first
  result has an alternative; it appends nothing when the result list is absent or empty, or
  when the first result has no alternative. This holds whatever the \<open>continuous\<close>
  argument is.
\<close>

theorem response_appends_first_transcript:
  "results (onloadend_response p j c w) =
     (case json_results j of
        None \<Rightarrow> results w
      | Some [] \<Rightarrow> results w
      | Some (r # _) \<Rightarrow>
          (case alternatives r of [] \<Rightarrow> results w | a # _ \<Rightarrow> results w @ [transcript a]))"
  by (rule results_onloadend_response)

theorem response_appends_first_transcript_witness:
  "results (onloadend_response fallback_options hello_json True
              (useSpeechToText fallback_platform)) = [''hello''] \<and>
   results (onloadend_response fallback_options empty_json True
              (useSpeechToText fallback_platform)) = []"
  using response_appends_first_transcript [of fallback_options hello_json True
      "useSpeechToText fallback_platform"]
    response_appends_first_transcript [of fallback_options empty_json True
      "useSpeechToText fallback_platform"]
  by (simp add: hello_json_def empty_json_def useSpeechToText_def)

subsection \<open>C2: the auto-stop and speech\<close>

text \<open>
  Claim C2 says that the auto-stop scheduled by a start in the fallback path fires after
  the delay unless a \<open>speaking\<close> event occurs first, which clears it. That holds for the
  auto-stop of the session started last (lemmas \<open>auto_stop_scheduled\<close>,
  \<open>auto_stop_not_early\<close>, \<open>auto_stop_fires\<close> and \<open>speaking_clears_stored_handle\<close>). It
  fails for an earlier one: \<open>stopSpeechToText\<close> does not clear the timer, the next start
  overwrites \<open>timeoutId.current\<close>, and \<open>speaking\<close> clears the stored handle only. In the
  run \<open>stopped_and_restarted\<close> the second session is recording and speech has been heard
  at 3000 ms and has cleared timer 2; timer 1, scheduled by the first start, is still
  pending, and at 5000 ms it fires: it sets \<open>isRecording\<close> to false, stops the track of
  the second stream and stops the recording without export.
\<close>

theorem stale_auto_stop_fires_after_speech:
  "isRecording (run fallback_options (useSpeechToText fallback_platform) stopped_and_restarted) \<and>
   last (calls (run fallback_options (useSpeechToText fallback_platform)
      stopped_and_restarted)) = ClearTimeout (Some 2) \<and>
   timers (run fallback_options (useSpeechToText fallback_platform) stopped_and_restarted) =
     [(1, 5000)] \<and>
   isRecording (run fallback_options (useSpeechToText fallback_platform)
      (stopped_and_restarted @ [Elapse 2000, Timer 1])) = False \<and>
   calls (run fallback_options (useSpeechToText fallback_platform)
      (stopped_and_restarted @ [Elapse 2000, Timer 1])) =
     calls (run fallback_options (useSpeechToText fallback_platform) stopped_and_restarted) @
       [Track_stop (Clone (Microphone 2)), StopRecording False None]"
  by (simp add: stopped_and_restarted_def run_Cons run_Nil eval_defs)

subsection \<open>C3: start without recognizer and without \<open>crossBrowser\<close>\<close>

text \<open>
  Claim C3: in every state in which \<open>recognition\<close> is undefined, and with \<open>crossBrowser\<close>
  not set to true, \<open>startSpeechToText\<close> returns the state as it is: \<open>isRecording\<close>,
  \<open>results\<close> and \<open>error\<close> are unchanged and no call is made, so that
  \<open>startRecording\<close> is not called, nothing is recorded and nothing is sent.
\<close>

theorem startSpeechToText_noop:
  assumes "recognition w = None" and "\<not> truthy (crossBrowser p)"
  shows "startSpeechToText p w = w \<and> step p w Start = w"
  using assms by (simp add: startSpeechToText_def step_def keep_cells_def)

theorem startSpeechToText_noop_witness:
  "recognition (useSpeechToText fallback_platform) = None \<and>
   \<not> truthy (crossBrowser default_options) \<and>
   startSpeechToText default_options (useSpeechToText fallback_platform) =
     useSpeechToText fallback_platform \<and>
   calls (step default_options (useSpeechToText fallback_platform) Start) = []"
proof -
  have h1: "recognition (useSpeechToText fallback_platform) = None"
    by (simp add: sample_defs)
  have h2: "\<not> truthy (crossBrowser default_options)"
    by (simp add: sample_defs)
  have "calls (useSpeechToText fallback_platform) = []"
    by (simp add: useSpeechToText_def)
  with startSpeechToText_noop [OF h1 h2] h1 h2 show ?thesis by simp
qed

subsection \<open>C4: the transcript list only grows at its end\<close>

text \<open>
  Claim C4: every event of the hook leaves \<open>results\<close> as it is or appends one element
  at its end; hence over every run the list at the start is a prefix of the list at the
  end: no entry is modified, reordered or removed.
\<close>

theorem results_append_only:
  "(results (step p w e) = results w \<or> (\<exists>x. results (step p w e) = results w @ [x])) \<and>
   prefix (results w) (results (run p w es))"
  using results_step [of p w e] results_run [of w p es] by blast

theorem results_append_only_witness:
  "results (run fallback_options (useSpeechToText fallback_platform) continuous_session) =
     [''hello''] \<and>
   prefix (results (useSpeechToText fallback_platform))
     (results (run fallback_options (useSpeechToText fallback_platform) continuous_session))"
proof -
  have "results (run fallback_options (useSpeechToText fallback_platform) continuous_session) =
      [''hello'']"
    by (simp add: continuous_session_def run_Cons run_Nil eval_defs)
  with results_append_only [of fallback_options "useSpeechToText fallback_platform" Start
      continuous_session]
  show ?thesis by simp
qed

subsection \<open>C5: the request\<close>

text \<open>
  Claim C5: \<open>reader.onloadend\<close> sends one request; its encoding is \<open>LINEAR16\<close>; its
  audio content is the data URL after its first comma (the whole string if there is no
  comma); its \<open>sampleRateHertz\<close> is the sample rate of the audio context capped at
  48000, that is 48000 if the rate is greater and the rate itself otherwise. The audio
  context is read through \<open>audioContextRef.current?.sampleRate\<close>; once mount has stored
  a context it stays, so every request of the events that follow carries the capped rate
  of that context. No other event of the hook sends a request.
\<close>

theorem request_is_linear16_capped:
  "calls (onloadend p (Some d) w) = calls w @ [Fetch (request_url p) (request_data d w)] \<and>
   encoding (config (request_data d w)) = ''LINEAR16'' \<and>
   content (audio (request_data d w)) =
     (if CHR '','' \<in> set d then tl (dropWhile (\<lambda>x. x \<noteq> CHR '','') d) else d) \<and>
   sampleRateHertz (config (request_data d w)) =
     map_option (\<lambda>ctx. if sampleRate ctx > 48000 then 48000 else sampleRate ctx)
       (audioContextRef w) \<and>
   (audioContextRef w = Some ctx \<longrightarrow>
      sampleRateHertz (config (request_data d (run p w es))) =
        Some (if sampleRate ctx > 48000 then 48000 else sampleRate ctx)) \<and>
   filter is_fetch (calls (step p w e)) = filter is_fetch (calls w) @
     (case e of
        Reader_loadend (Some d') c \<Rightarrow> [Fetch (request_url p) (request_data d' w)]
      | _ \<Rightarrow> [])"
proof -
  have "sampleRateHertz (config (request_data d (run p w es))) =
      Some (if sampleRate ctx > 48000 then 48000 else sampleRate ctx)"
    if "audioContextRef w = Some ctx"
    using audioContextRef_run [OF that, of p es]
    by (simp add: request_data_def request_sampleRate_capped)
  then show ?thesis
    by (simp add: onloadend_def call_def request_data_def substr_after_indexOf
        request_sampleRate_capped fetch_step)
qed

theorem request_is_linear16_capped_witness:
  "audioContextRef (mount fallback_platform fallback_options (useSpeechToText fallback_platform)) =
     Some \<lparr>sampleRate = 96000\<rparr> \<and>
   request_data wav_data_url
       (run fallback_options
          (mount fallback_platform fallback_options (useSpeechToText fallback_platform))
          [Start, Recording_started (Some (Microphone 1)), Speaking, Stopped_speaking,
           Wav_exported 0 True]) =
     \<lparr>config = \<lparr>encoding = ''LINEAR16'', languageCode = ''en-US'',
                 sampleRateHertz = Some 48000\<rparr>,
      audio = \<lparr>content = ''UklGRg==''\<rparr>\<rparr>"
proof -
  let ?w = "mount fallback_platform fallback_options (useSpeechToText fallback_platform)"
  let ?es = "[Start, Recording_started (Some (Microphone 1)), Speaking, Stopped_speaking,
    Wav_exported 0 True]"
  have h: "audioContextRef ?w = Some \<lparr>sampleRate = 96000\<rparr>"
    by (simp add: eval_defs)
  have "content (audio (request_data wav_data_url (run fallback_options ?w ?es))) = ''UklGRg==''"
    by (simp add: request_data_def substr_def wav_data_url_def)
  moreover have "encoding (config (request_data wav_data_url (run fallback_options ?w ?es))) =
      ''LINEAR16''"
    "languageCode (config (request_data wav_data_url (run fallback_options ?w ?es))) = ''en-US''"
    by (simp_all add: request_data_def)
  moreover from request_is_linear16_capped [of fallback_options wav_data_url ?w
      "\<lparr>sampleRate = 96000\<rparr>" ?es]
  have "sampleRateHertz (config (request_data wav_data_url (run fallback_options ?w ?es))) =
      Some 48000"
    using h by simp
  ultimately show ?thesis using h by (simp add: request_data_def)
qed

subsection \<open>C6: restart after the response\<close>



subsection \<open>C7: one \<open>stopped_speaking\<close> event, one stop of the track\<close>

text \<open>
  Claim C7 says that for one \<open>stopped_speaking\<close> event the track is stopped exactly once
  and that no other code path stops that track again for the same event. With
  \<open>continuous\<close> true this fails: the restart that the response of this very event
  triggers begins with ``stop previous mediaStream track if exists'' (lines 112 to 115),
  which calls \<open>stop\<close> on the same, already stopped, track. In the run
  \<open>continuous_session\<close>, with a single \<open>stopped_speaking\<close> event, \<open>stop\<close> is called
  twice on the track of the first stream.
\<close>

theorem continuous_restart_stops_track_again:
  "count_list continuous_session Stopped_speaking = 1 \<and>
   count_list (calls (run fallback_options (useSpeechToText fallback_platform)
      continuous_session)) (Track_stop (Clone (Microphone 1))) = 2"
  by (simp add: continuous_session_def run_Cons run_Nil eval_defs)

text \<open>
  C7 as amended: with a media stream in place, the \<open>stopped_speaking\<close> listener sets
  \<open>isRecording\<close> to false, calls \<open>stop\<close> on the first audio track of the current stream
  once and calls \<open>stopRecording\<close> once, with export and a callback; the submission that
  follows (export, read, request, response) does not stop that track again; the start of
  the next session, which follows the response when \<open>continuous\<close> is true, calls \<open>stop\<close>
  on that track once more before it replaces the stream.
\<close>

theorem stopped_speaking_stops_track_once:
  assumes "mediaStream w = Some m"
  shows "isRecording (stopped_speaking p w) = False \<and>
    calls (stopped_speaking p w) = calls w @
      (if onStoppedSpeaking p then [OnStoppedSpeaking] else []) @
      [Track_stop m, StopRecording True (Some (truthy (continuous p)))] \<and>
    count_list (calls (run p w [Stopped_speaking, Wav_exported b c, Reader_loadend r c,
        Response j c])) (Track_stop m) = count_list (calls w) (Track_stop m) + 1 \<and>
    count_list (calls (run p w [Stopped_speaking, Wav_exported b c, Reader_loadend r c,
        Response j c, Recording_started s])) (Track_stop m) =
      count_list (calls w) (Track_stop m) + 2"
proof -
  let ?w1 = "step p w Stopped_speaking"
  let ?w2 = "step p ?w1 (Wav_exported b c)"
  let ?w3 = "step p ?w2 (Reader_loadend r c)"
  let ?w4 = "step p ?w3 (Response j c)"
  let ?w5 = "step p ?w4 (Recording_started s)"
  have m1: "mediaStream ?w1 = Some m"
    using assms by (simp add: step_fields stopped_speaking_fields)
  have m2: "mediaStream ?w2 = Some m"
    using m1 by (simp add: step_fields handleBlobToBase64_def call_def)
  have m3: "mediaStream ?w3 = Some m"
    using m2 by (simp add: step_fields onloadend_def call_def throw_def split: option.splits)
  have m4: "mediaStream ?w4 = Some m"
    using m3 by (simp add: step_fields onloadend_response_fields)
  have c1: "count_list (calls ?w1) (Track_stop m) = count_list (calls w) (Track_stop m) + 1"
    using assms by (simp add: step_fields calls_stopped_speaking)
  have c2: "count_list (calls ?w2) (Track_stop m) = count_list (calls ?w1) (Track_stop m)"
    by (simp add: step_fields [of p ?w1] handleBlobToBase64_def call_def)
  have c3: "count_list (calls ?w3) (Track_stop m) = count_list (calls ?w2) (Track_stop m)"
    by (simp add: step_fields [of p ?w2] onloadend_def call_def throw_def split: option.splits)
  have c4: "count_list (calls ?w4) (Track_stop m) = count_list (calls ?w3) (Track_stop m)"
    by (simp add: step_fields [of p ?w3] calls_onloadend_response)
  have c5: "count_list (calls ?w5) (Track_stop m) = count_list (calls ?w4) (Track_stop m) + 1"
    using m4 by (simp add: step_fields [of p ?w4] calls_startSpeechToText_resume
        split: option.splits)
  have "calls (stopped_speaking p w) = calls w @
      (if onStoppedSpeaking p then [OnStoppedSpeaking] else []) @
      [Track_stop m, StopRecording True (Some (truthy (continuous p)))]"
    using assms by (simp add: calls_stopped_speaking)
  then show ?thesis
    using c1 c2 c3 c4 c5 by (simp add: run_Cons run_Nil stopped_speaking_fields)
qed

theorem stopped_speaking_stops_track_once_witness:
  "mediaStream while_speaking = Some (Clone (Microphone 1)) \<and>
   isRecording while_speaking \<and>
   isRecording (stopped_speaking fallback_options while_speaking) = False \<and>
   calls (stopped_speaking fallback_options while_speaking) =
     calls while_speaking @
       [Track_stop (Clone (Microphone 1)), StopRecording True (Some True)] \<and>
   count_list (calls (run fallback_options while_speaking
      [Stopped_speaking, Wav_exported 0 True, Reader_loadend (Some wav_data_url) True,
       Response hello_json True])) (Track_stop (Clone (Microphone 1))) = 1"
proof -
  have h: "mediaStream while_speaking = Some (Clone (Microphone 1))"
    by (simp add: while_speaking_def run_Cons run_Nil eval_defs)
  have r: "isRecording while_speaking"
    by (simp add: while_speaking_def run_Cons run_Nil eval_defs)
  have n: "count_list (calls while_speaking) (Track_stop (Clone (Microphone 1))) = 0"
    by (simp add: while_speaking_def run_Cons run_Nil eval_defs)
  have o: "onStoppedSpeaking fallback_options = False"
    "truthy (continuous fallback_options) = True"
    by (simp_all add: sample_defs)
  from stopped_speaking_stops_track_once [OF h, of fallback_options 0 True
      "Some wav_data_url" hello_json "Some (Microphone 2)"]
  show ?thesis using h r n o by simp
qed

subsection \<open>C8: the error string\<close>

text \<open>
  Claim C8, for a mounted hook in a browser that has \<open>AudioContext\<close> (without it the
  effect of mount throws and the tree is unmounted, lemma \<open>mount_without_AudioContext\<close>):
  \<open>error\<close> is one string, empty at first. On mount it becomes the recognition message
  when the recognizer is missing and \<open>crossBrowser\<close> is off, and then the \<open>getUserMedia\<close>
  message, which overwrites the first, when \<open>getUserMedia\<close> is missing. The handler for a
  refused microphone sets it to \<open>Microphone permission was denied\<close>. Every event leaves
  it as it was or sets it to one of these three messages.
\<close>

theorem error_last_write_wins:
  assumes "AudioContext pl = Some ctx" and "\<not> unmounted w"
  shows "error (useSpeechToText pl) = [] \<and>
   error (mount pl p w) =
     (if \<not> getUserMedia pl then ''getUserMedia is not supported on this device/browser :(''
      else if \<not> truthy (crossBrowser p) \<and> recognition w = None
        then ''Speech Recognition API is only available on Chrome''
      else error w) \<and>
   step p w (Mount pl) = mount pl p w \<and>
   error (step p w Recording_refused) = ''Microphone permission was denied'' \<and>
   error (step p w e) \<in>
     {error w, ''Speech Recognition API is only available on Chrome'',
      ''getUserMedia is not supported on this device/browser :('',
      ''Microphone permission was denied''}"
proof -
  have "error (step p w Recording_refused) = ''Microphone permission was denied''"
    using assms(2) by (simp add: step_mounted errHandler_def setError_def)
  moreover have "error (useSpeechToText pl) = []"
    by (simp add: useSpeechToText_def)
  moreover have "step p w (Mount pl) = mount pl p w"
    using assms(2) by (simp add: step_mounted)
  moreover have "error (mount pl p w) =
     (if \<not> getUserMedia pl then ''getUserMedia is not supported on this device/browser :(''
      else if \<not> truthy (crossBrowser p) \<and> recognition w = None
        then ''Speech Recognition API is only available on Chrome''
      else error w)"
    using assms(1) by (simp add: error_mount)
  ultimately show ?thesis using error_step [of p w e] by blast
qed

theorem error_last_write_wins_witness:
  "AudioContext fallback_platform = Some \<lparr>sampleRate = 96000\<rparr> \<and>
   AudioContext bare_platform = Some \<lparr>sampleRate = 44100\<rparr> \<and>
   \<not> unmounted (useSpeechToText fallback_platform) \<and>
   \<not> unmounted (useSpeechToText bare_platform) \<and>
   error (mount fallback_platform default_options (useSpeechToText fallback_platform)) =
     ''Speech Recognition API is only available on Chrome'' \<and>
   error (mount bare_platform default_options (useSpeechToText bare_platform)) =
     ''getUserMedia is not supported on this device/browser :('' \<and>
   error (mount fallback_platform fallback_options (useSpeechToText fallback_platform)) = []"
proof -
  have a: "AudioContext fallback_platform = Some \<lparr>sampleRate = 96000\<rparr>"
    "AudioContext bare_platform = Some \<lparr>sampleRate = 44100\<rparr>"
    by (simp_all add: sample_defs)
  have u: "\<not> unmounted (useSpeechToText fallback_platform)"
    "\<not> unmounted (useSpeechToText bare_platform)"
    by (simp_all add: sample_defs)
  from error_last_write_wins [OF a(1) u(1), of default_options Start]
    error_last_write_wins [OF a(2) u(2), of default_options Start]
    error_last_write_wins [OF a(1) u(1), of fallback_options Start]
  show ?thesis using a u by (simp add: sample_defs)
qed

subsection \<open>C9: a manual stop does not restart\<close>

text \<open>
  Claim C9: in the fallback path \<open>stopSpeechToText\<close> sets \<open>isRecording\<close> to false, stops
  the track and calls \<open>stopRecording\<close> with export and a callback whose \<open>continuous\<close>
  argument is \<open>false\<close>, whatever the option \<open>continuous\<close> is; the response handler run
  with that argument makes no call, so it starts nothing, and leaves \<open>isRecording\<close> as it
  is. This is the submission the manual stop itself starts; a \<open>stopped_speaking\<close> event
  that Hark emits later is another event, with the callback of C6.
\<close>

theorem manual_stop_never_restarts:
  assumes "recognition w = None"
  shows "isRecording (stopSpeechToText w) = False \<and>
    calls (stopSpeechToText w) = calls w @
      (case mediaStream w of None \<Rightarrow> [] | Some m \<Rightarrow> [Track_stop m]) @
      [StopRecording True (Some False)] \<and>
    calls (onloadend_response p j False w') = calls w' \<and>
    isRecording (onloadend_response p j False w') = isRecording w'"
  using assms
  by (simp add: calls_stopSpeechToText calls_onloadend_response onloadend_response_fields
      stopSpeechToText_def setter_defs split: option.splits)

theorem manual_stop_never_restarts_witness:
  "recognition while_speaking = None \<and>
   truthy (continuous fallback_options) \<and>
   calls (stopSpeechToText while_speaking) =
     calls while_speaking @ [Track_stop (Clone (Microphone 1)), StopRecording True (Some False)] \<and>
   calls (onloadend_response fallback_options hello_json False (stopSpeechToText while_speaking)) =
     calls (stopSpeechToText while_speaking) \<and>
   isRecording (onloadend_response fallback_options hello_json False
     (stopSpeechToText while_speaking)) = False"
proof -
  have h: "recognition while_speaking = None"
    by (simp add: while_speaking_def run_Cons run_Nil eval_defs)
  have m: "mediaStream while_speaking = Some (Clone (Microphone 1))"
    by (simp add: while_speaking_def run_Cons run_Nil eval_defs)
  have c: "truthy (continuous fallback_options)"
    by (simp add: sample_defs)
  from manual_stop_never_restarts [OF h, of fallback_options hello_json
      "stopSpeechToText while_speaking"]
  show ?thesis using h m c by simp
qed

subsection \<open>C10: the auto-stop discards the audio\<close>

text \<open>
  Claim C10: the callback of the timeout sets \<open>isRecording\<close> to false, stops the track
  and calls \<open>stopRecording\<close> with \<open>exportWAV\<close> false and no callback, and nothing else:
  it hands out no callback that could submit audio, it sends no request, and it leaves
  \<open>results\<close> as it is. The same holds for the timer event, which runs the callback when
  the timer is pending and due and does nothing otherwise.
\<close>

theorem auto_stop_discards_audio:
  "calls (timeout_callback w) = calls w @
     (case mediaStream w of None \<Rightarrow> [] | Some m \<Rightarrow> [Track_stop m]) @
     [StopRecording False None] \<and>
   results (timeout_callback w) = results w \<and>
   isRecording (timeout_callback w) = False \<and>
   calls (timer_fires i w) = calls w @
     (if due_timer i w
      then (case mediaStream w of None \<Rightarrow> [] | Some m \<Rightarrow> [Track_stop m]) @
           [StopRecording False None]
      else []) \<and>
   results (timer_fires i w) = results w \<and>
   filter is_fetch (calls (timer_fires i w)) = filter is_fetch (calls w)"
proof -
  have "filter is_fetch (calls (timer_fires i w)) = filter is_fetch (calls w)"
    by (simp add: calls_timer_fires is_fetch_def split: option.splits)
  then show ?thesis
    by (simp add: calls_timeout_callback timeout_callback_fields calls_timer_fires
        results_timer_fires)
qed

theorem auto_stop_discards_audio_witness:
  "due_timer 1 (elapse 5000 while_speaking) = False \<and>
   due_timer 1 (run fallback_options (useSpeechToText fallback_platform)
      [Mount fallback_platform, Start, Recording_started (Some (Microphone 1)), Elapse 5000]) \<and>
   calls (timer_fires 1 (run fallback_options (useSpeechToText fallback_platform)
      [Mount fallback_platform, Start, Recording_started (Some (Microphone 1)), Elapse 5000])) =
     [StartRecording (Some \<lparr>sampleRate = 96000\<rparr>), SetTimeout 1 5000,
      Hark (Clone (Microphone 1)) (Some \<lparr>sampleRate = 96000\<rparr>),
      Track_stop (Clone (Microphone 1)), StopRecording False None] \<and>
   results (timer_fires 1 (run fallback_options (useSpeechToText fallback_platform)
      [Mount fallback_platform, Start, Recording_started (Some (Microphone 1)), Elapse 5000])) = []"
proof -
  let ?w = "run fallback_options (useSpeechToText fallback_platform)
      [Mount fallback_platform, Start, Recording_started (Some (Microphone 1)), Elapse 5000]"
  have d: "due_timer 1 ?w"
    by (simp add: run_Cons run_Nil eval_defs)
  have n: "due_timer 1 (elapse 5000 while_speaking) = False"
    by (simp add: while_speaking_def run_Cons run_Nil eval_defs)
  have m: "mediaStream ?w = Some (Clone (Microphone 1))"
    by (simp add: run_Cons run_Nil eval_defs)
  have c: "calls ?w =
     [StartRecording (Some \<lparr>sampleRate = 96000\<rparr>), SetTimeout 1 5000,
      Hark (Clone (Microphone 1)) (Some \<lparr>sampleRate = 96000\<rparr>)]"
    by (simp add: run_Cons run_Nil eval_defs)
  have r: "results ?w = []"
    by (simp add: run_Cons run_Nil eval_defs)
  from auto_stop_discards_audio [of ?w 1]
  show ?thesis using d n m c r by simp
qed

end
